theory Spec2Isabelle
  imports Main "HOL-Library.Word"
begin

unbundle bit_operations_syntax

section \<open>Allwinner H6 thermal sensor driver (drivers/thermal/sun50i\_h6\_ths.c)\<close>

text \<open>
  A shallow embedding of the driver's temperature conversion, temperature query,
  threaded interrupt handler, calibration and the calibration step of probe.

  Machine integers are words: \<open>u32\<close>, \<open>u16\<close> and \<open>u8\<close> are read with \<open>uint\<close>/\<open>unat\<close>;
  the C types \<open>int\<close> and \<open>s16\<close> are the same bit patterns read with \<open>sint\<close>
  (\<open>s32\<close>, \<open>s16\<close>). The integer promotions of C are written out: \<open>scast\<close> sign-extends
  an \<open>s16\<close> to \<open>int\<close>, \<open>ucast\<close> zero-extends a \<open>u16\<close> or truncates an \<open>int\<close> to 16 bits.
\<close>

type_synonym u8 = "8 word"
type_synonym u16 = "16 word"
type_synonym s16 = "16 word"
type_synonym u32 = "32 word"
type_synonym s32 = "32 word"

subsection \<open>Register offsets and constants (lines 32-64)\<close>

definition THS_H6_MAX_SENSOR_NUM :: nat where
  "THS_H6_MAX_SENSOR_NUM = 4"

definition THS_H6_DATA_INT_STAT :: nat where
  "THS_H6_DATA_INT_STAT = 0x20"

definition THS_H6_CDATA :: "nat \<Rightarrow> nat" where
  "THS_H6_CDATA n = 0xa0 + 4 * n"

definition THS_H6_DATA :: "nat \<Rightarrow> nat" where
  "THS_H6_DATA n = 0xc0 + 4 * n"

definition THS_H6_STAT_DATA_IRQ_STS :: "nat \<Rightarrow> u32" where
  "THS_H6_STAT_DATA_IRQ_STS n = push_bit (0 + n) 1"

definition THS_H6_CAL_FT_TEMP_MASK :: s32 where
  "THS_H6_CAL_FT_TEMP_MASK = 0x0fff"

definition THS_H6_CAL_DEFAULT :: s32 where
  "THS_H6_CAL_DEFAULT = 0x800"

definition THS_H6_CAL_VAL_MASK :: s32 where
  "THS_H6_CAL_VAL_MASK = 0xfff"

subsection \<open>Temperature conversion (lines 89-97)\<close>

text \<open>
  \<open>val * 1000000\<close> multiplies a \<open>u32\<close> by an \<open>int\<close> constant: the product and the
  division are unsigned 32-bit operations. The cast to \<open>int\<close> keeps the bits, and the
  subtraction from 187744 is a signed 32-bit subtraction (the same bits as the unsigned one).
\<close>

definition sun50i_h6_ths_calc_temp :: "u32 \<Rightarrow> s32" where
  "sun50i_h6_ths_calc_temp val = 187744 - ((val * 1000000) div 14882)"

text \<open>
  \<open>2794 - temp * 14882 / 1000000\<close> is computed in \<open>u32\<close> and truncated to \<open>u16\<close>.
\<close>

definition sun50i_h6_ths_recalc_reg :: "u32 \<Rightarrow> u16" where
  "sun50i_h6_ths_recalc_reg temp = ucast (2794 - ((temp * 14882) div 1000000))"

subsection \<open>Device context (lines 68-87)\<close>

datatype errno = EBUSY | EINVAL | ERR int

text \<open>
  What the driver does to its environment, in the order it does it: register reads and
  writes, notifications of a thermal zone (named by its sensor's index) and warnings.
\<close>

datatype event =
    Readl nat u32
  | Writel u32 nat
  | Writew u16 nat
  | Thermal_zone_device_update nat
  | Pr_warn nat

text \<open>
  \<open>struct sun50i_h6_ths_sensor\<close>: the back pointer \<open>data\<close> is the device context the
  functions below are given, and the thermal zone \<open>tzd\<close> is named by the sensor's index.
\<close>

record sun50i_h6_ths_sensor =
  sensor_id :: int
  val :: u32

record sun50i_h6_ths_cfg =
  sensor_num :: nat
  calc_temp :: "u32 \<Rightarrow> s32"

text \<open>
  \<open>struct sun50i_h6_ths_data\<close>. \<open>regs\<close> is the content of the mapped register block, by
  byte offset; \<open>calcell\<close> is what \<open>nvmem_cell_read\<close> returns for the calibration cell
  (an error, or the cell's bytes); \<open>live_bufs\<close> counts the buffers handed out by
  \<open>nvmem_cell_read\<close> and not yet given to \<open>kfree\<close>; \<open>trace\<close> is the list of events so
  far, oldest first. The clock and reset handles play no part in the functions modelled.
\<close>

record sun50i_h6_ths_data =
  cfg :: sun50i_h6_ths_cfg
  regs :: "nat \<Rightarrow> u32"
  calcell :: "errno + u8 list"
  sensors :: "sun50i_h6_ths_sensor list"
  live_bufs :: nat
  trace :: "event list"

text \<open>The only configuration of the driver (lines 341-344).\<close>

definition sun50i_h6_ths_cfg :: sun50i_h6_ths_cfg where
  "sun50i_h6_ths_cfg = \<lparr>sensor_num = 2, calc_temp = sun50i_h6_ths_calc_temp\<rparr>"

subsection \<open>Register interface\<close>

text \<open>
  Modelled from the spec: the kernel's accessors \<open>readl\<close>, \<open>writel\<close> and \<open>writew\<close> and the
  hardware behind them are not part of the driver. Every access is a direct load or store
  at a fixed offset; the interrupt-status register is write-1-to-clear; a calibration word
  holds two 16-bit fields, and a 16-bit store at the word's offset replaces its lower
  (little-endian) half. The hardware does not change a register during a call.
\<close>

definition readl :: "nat \<Rightarrow> sun50i_h6_ths_data \<Rightarrow> u32 \<times> sun50i_h6_ths_data" where
  "readl off s = (regs s off, s\<lparr>trace := trace s @ [Readl off (regs s off)]\<rparr>)"

definition writel :: "u32 \<Rightarrow> nat \<Rightarrow> sun50i_h6_ths_data \<Rightarrow> sun50i_h6_ths_data" where
  "writel v off s =
     s\<lparr>regs := (regs s)(off :=
            (if off = THS_H6_DATA_INT_STAT then regs s off AND NOT v else v)),
       trace := trace s @ [Writel v off]\<rparr>"


definition thermal_zone_device_update :: "nat \<Rightarrow> sun50i_h6_ths_data \<Rightarrow> sun50i_h6_ths_data" where
  "thermal_zone_device_update i s = s\<lparr>trace := trace s @ [Thermal_zone_device_update i]\<rparr>"

definition pr_warn :: "nat \<Rightarrow> sun50i_h6_ths_data \<Rightarrow> sun50i_h6_ths_data" where
  "pr_warn i s = s\<lparr>trace := trace s @ [Pr_warn i]\<rparr>"

definition kfree :: "sun50i_h6_ths_data \<Rightarrow> sun50i_h6_ths_data" where
  "kfree s = s\<lparr>live_bufs := live_bufs s - 1\<rparr>"

subsection \<open>Temperature query (lines 99-109)\<close>

text \<open>
  The query is given the sensor registered by probe, \<open>&data->sensors[i]\<close>. The result is
  the error, or the value stored through \<open>out\<close>; the device context is returned as the
  call leaves it.
\<close>

definition sun50i_h6_ths_get_temp ::
  "nat \<Rightarrow> sun50i_h6_ths_data \<Rightarrow> (errno + s32) \<times> sun50i_h6_ths_data" where
  "sun50i_h6_ths_get_temp i s =
     (if val (sensors s ! i) = 0 then (Inl EBUSY, s)
      else (Inr (calc_temp (cfg s) (val (sensors s ! i))), s))"

subsection \<open>Threaded interrupt handler (lines 111-131)\<close>

definition irq_thread_body :: "nat \<Rightarrow> sun50i_h6_ths_data \<Rightarrow> sun50i_h6_ths_data" where
  "irq_thread_body i s =
     (let (stat, s1) = readl THS_H6_DATA_INT_STAT s in
      if stat AND THS_H6_STAT_DATA_IRQ_STS i = 0 then s1
      else
        let s2 = writel (THS_H6_STAT_DATA_IRQ_STS i) THS_H6_DATA_INT_STAT s1;
            (v, s3) = readl (THS_H6_DATA i) s2;
            s4 = s3\<lparr>sensors := (sensors s3)[i := (sensors s3 ! i)\<lparr>val := v\<rparr>]\<rparr>
        in if val (sensors s4 ! i) \<noteq> 0 then thermal_zone_device_update i s4 else s4)"

definition sun50i_h6_ths_irq_thread :: "sun50i_h6_ths_data \<Rightarrow> sun50i_h6_ths_data" where
  "sun50i_h6_ths_irq_thread s = fold irq_thread_body [0..<sensor_num (cfg s)] s"

text \<open>
  What the interrupt handler is expected to do for sensor \<open>i\<close>, in the words of the
  specification: look at the status; if the sensor's bit is set, clear it, then read the
  data register, and notify the thermal zone when the value read is not zero. \<open>stat\<close> and
  \<open>data i\<close> are the status and data registers when the handler starts; the bits of the
  sensors before \<open>i\<close> have been cleared by then.
\<close>

definition irq_events :: "u32 \<Rightarrow> (nat \<Rightarrow> u32) \<Rightarrow> nat \<Rightarrow> event list" where
  "irq_events stat data i =
     Readl THS_H6_DATA_INT_STAT (stat AND NOT (mask i)) #
     (if bit stat i
      then [Writel (THS_H6_STAT_DATA_IRQ_STS i) THS_H6_DATA_INT_STAT, Readl (THS_H6_DATA i) (data i)]
           @ (if data i \<noteq> 0 then [Thermal_zone_device_update i] else [])
      else [])"

subsection \<open>Calibration (lines 161-210)\<close>

text \<open>\<open>caldata[k]\<close>: a 16-bit little-endian load from the byte buffer.\<close>

definition caldata_at :: "u8 list \<Rightarrow> nat \<Rightarrow> u16" where
  "caldata_at buf k = ucast (buf ! (2 * k)) OR push_bit 8 (ucast (buf ! (2 * k + 1)))"

text \<open>
  \<open>diff\<close> and \<open>cal_val\<close> are \<open>s16\<close>: the subtractions are done in \<open>int\<close> on the promoted
  operands and the results truncated to 16 bits.
\<close>

definition cal_diff :: "s16 \<Rightarrow> u16 \<Rightarrow> s16" where
  "cal_diff ft_temp_orig_reg stored = ucast ((scast ft_temp_orig_reg :: s32) - scast stored)"

definition cal_value :: "s16 \<Rightarrow> u16 \<Rightarrow> s16" where
  "cal_value ft_temp_orig_reg stored =
     ucast (THS_H6_CAL_DEFAULT - (scast (cal_diff ft_temp_orig_reg stored) :: s32))"

definition calibrate_body ::
  "u8 list \<Rightarrow> s16 \<Rightarrow> nat \<Rightarrow> sun50i_h6_ths_data \<Rightarrow> sun50i_h6_ths_data" where
  "calibrate_body caldata ft_temp_orig_reg i s =
     (let cal_val = cal_value ft_temp_orig_reg (caldata_at caldata (1 + i)) in
      if (scast cal_val :: s32) AND NOT THS_H6_CAL_VAL_MASK \<noteq> 0 then pr_warn i s
      else if i mod 2 \<noteq> 0 then
        let (reg_val, s1) = readl (THS_H6_CDATA (i div 2)) s;
            reg_val = reg_val AND 0xffff;
            reg_val = reg_val OR push_bit 16 (scast cal_val)
        in writel reg_val (THS_H6_CDATA (i div 2)) s1
      else writel (scast cal_val) (THS_H6_CDATA (i div 2)) s)"

definition sun50i_h6_ths_calibrate ::
  "sun50i_h6_ths_data \<Rightarrow> (errno + unit) \<times> sun50i_h6_ths_data" where
  "sun50i_h6_ths_calibrate s =
     (case calcell s of
        Inl e \<Rightarrow> (Inl e, s)
      | Inr caldata \<Rightarrow>
          let s0 = s\<lparr>live_bufs := live_bufs s + 1\<rparr> in
          if length caldata < 2 + 2 * sensor_num (cfg s0) then (Inl EINVAL, s0)
          else if caldata_at caldata 0 = 0 then (Inl EINVAL, s0)
          else
            let ft_temp = (ucast (caldata_at caldata 0) AND THS_H6_CAL_FT_TEMP_MASK) * 100;
                ft_temp_orig_reg = sun50i_h6_ths_recalc_reg ft_temp;
                s1 = fold (calibrate_body caldata ft_temp_orig_reg) [0..<sensor_num (cfg s0)] s0
            in (Inr (), kfree s1))"

subsection \<open>The calibration step of probe (lines 294-303)\<close>




text \<open>
  The device context as probe has it when it reaches the calibration step: zeroed by
  \<open>devm_kzalloc\<close>, with the match data, the mapped registers and the calibration cell.
\<close>

definition probe_data :: "(nat \<Rightarrow> u32) \<Rightarrow> errno + u8 list \<Rightarrow> sun50i_h6_ths_data" where
  "probe_data r cell =
     \<lparr>cfg = sun50i_h6_ths_cfg, regs = r, calcell = cell,
      sensors = replicate THS_H6_MAX_SENSOR_NUM \<lparr>sensor_id = 0, val = 0\<rparr>,
      live_bufs = 0, trace = []\<rparr>"


section \<open>Temperature conversion\<close>

text \<open>
  The quotient subtracted in \<open>sun50i_h6_ths_calc_temp\<close> is at most \<open>2^32 div 14882\<close>,
  so the signed subtraction never overflows.
\<close>

lemma sint_sub_small:
  fixes q :: u32
  assumes u: "uint q \<le> 288601"
  shows "sint (187744 - q) = 187744 - uint q"
proof -
  have "sint (187744 - q) = signed_take_bit 31 (uint (187744 - q))"
    by (simp add: sint_uint)
  also have "uint (187744 - q) = take_bit 32 (187744 - uint q)"
    by (simp add: uint_word_ariths take_bit_eq_mod)
  also have "signed_take_bit 31 (take_bit 32 (187744 - uint q)) = signed_take_bit 31 (187744 - uint q)"
    by (simp add: signed_take_bit_take_bit)
  also have "\<dots> = 187744 - uint q"
  proof (rule signed_take_bit_int_eq_self)
    show "- (2 ^ 31) \<le> 187744 - uint q" using u by simp
    have p: "(2::int) ^ 31 = 2147483648" by simp
    show "187744 - uint q < 2 ^ 31"
      unfolding p using uint_ge_0 [of q] by linarith
  qed
  finally show ?thesis .
qed

lemma calc_q: "uint ((x * 1000000) div 14882 :: u32) = ((uint x * 1000000) mod 2^32) div 14882"
  by (simp add: uint_div uint_word_ariths)

lemma q_bound: "uint ((x * 1000000) div 14882 :: u32) \<le> 288601"
proof -
  have "(uint x * 1000000) mod 2^32 < (2::int)^32" by simp
  then have "((uint x * 1000000) mod 2^32) div 14882 \<le> 288601" by simp
  then show ?thesis by (simp only: calc_q)
qed

lemma calc_temp_sint:
  "sint (sun50i_h6_ths_calc_temp x) = 187744 - ((uint x * 1000000) mod 2^32) div 14882"
  unfolding sun50i_h6_ths_calc_temp_def
  by (simp only: sint_sub_small [OF q_bound] calc_q)

lemma calc_temp_sint_small:
  assumes "x \<le> 4294"
  shows "sint (sun50i_h6_ths_calc_temp x) = 187744 - (uint x * 1000000) div 14882"
proof -
  have "uint x \<le> 4294" using assms by (simp add: word_le_def)
  then have "uint x * 1000000 < 2 ^ 32" by simp
  then have "(uint x * 1000000) mod 2 ^ 32 = uint x * 1000000"
    by (simp add: mod_pos_pos_trivial)
  then show ?thesis by (simp only: calc_temp_sint)
qed

lemma wrapped_quotient_less:
  fixes x :: int
  assumes "2 ^ 32 \<le> x"
  shows "(x mod 2 ^ 32) div 14882 < x div 14882"
proof -
  have "x mod 2 ^ 32 \<le> x - 2 ^ 32"
  proof -
    have "x mod 2 ^ 32 = (x - 2 ^ 32) mod 2 ^ 32" by simp
    also have "\<dots> \<le> x - 2 ^ 32"
      by (rule zmod_le_nonneg_dividend) (use assms in simp)
    finally show ?thesis .
  qed
  then have "x mod 2 ^ 32 \<le> x - 14882" by simp
  then have "(x mod 2 ^ 32) div 14882 \<le> (x - 14882) div 14882"
    by (rule zdiv_mono1) simp
  also have "\<dots> = x div 14882 - 1" by simp
  finally show ?thesis by simp
qed

lemma quot_strict_mono:
  fixes a b :: int
  assumes "a < b"
  shows "(a * 1000000) div 14882 < (b * 1000000) div 14882"
proof -
  have "a * 1000000 + 14882 \<le> b * 1000000" using assms by simp
  then have "(a * 1000000 + 14882) div 14882 \<le> (b * 1000000) div 14882"
    by (rule zdiv_mono1) simp
  then show ?thesis by simp
qed

lemma roundtrip_int:
  fixes r :: int
  assumes "0 \<le> r" "r \<le> 2794"
  shows "(2794006208 - 14882 * ((r * 1000000) div 14882)) div 1000000 = 2794 - r"
proof -
  define q where "q = (r * 1000000) div 14882"
  define m where "m = (r * 1000000) mod 14882"
  have split: "r * 1000000 = 14882 * q + m"
    unfolding q_def m_def by (rule mult_div_mod_eq [symmetric])
  have m: "0 \<le> m" "m < 14882"
    unfolding m_def by simp_all
  have "2794006208 - 14882 * q = (2794 - r) * 1000000 + (6208 + m)"
    using split by (simp add: algebra_simps)
  also have "\<dots> div 1000000 = (2794 - r) + (6208 + m) div 1000000"
    by (simp only: div_mult_self3)
  also have "(6208 + m) div 1000000 = 0"
    using m by (simp add: div_pos_pos_trivial)
  finally show ?thesis by (simp add: q_def)
qed

lemma uint_calc_temp_nonneg:
  assumes "raw \<le> 2794"
  shows "uint (sun50i_h6_ths_calc_temp raw) = 187744 - (uint raw * 1000000) div 14882"
    and "(uint raw * 1000000) div 14882 \<le> 187743"
proof -
  have r: "uint raw \<le> 2794" using assms by (simp add: word_le_def)
  then have "uint raw * 1000000 \<le> 2794000000" by simp
  then have "(uint raw * 1000000) div 14882 \<le> 2794000000 div 14882"
    by (rule zdiv_mono1) simp
  then show b: "(uint raw * 1000000) div 14882 \<le> 187743" by simp
  have "raw \<le> 4294" using assms by (simp add: word_le_def)
  then have s: "sint (sun50i_h6_ths_calc_temp raw) = 187744 - (uint raw * 1000000) div 14882"
    by (rule calc_temp_sint_small)
  have q0: "0 \<le> (uint raw * 1000000) div 14882"
    by (simp add: pos_imp_zdiv_nonneg_iff)
  have "uint (sun50i_h6_ths_calc_temp raw) = take_bit 32 (sint (sun50i_h6_ths_calc_temp raw))"
    by (simp add: uint_sint)
  also have "\<dots> = take_bit 32 (187744 - (uint raw * 1000000) div 14882)"
    by (simp only: s)
  also have "\<dots> = 187744 - (uint raw * 1000000) div 14882"
  proof (rule take_bit_int_eq_self)
    show "0 \<le> 187744 - (uint raw * 1000000) div 14882" using b by linarith
    have p: "(2::int) ^ 32 = 4294967296" by simp
    show "187744 - (uint raw * 1000000) div 14882 < 2 ^ 32"
      unfolding p using q0 by linarith
  qed
  finally show "uint (sun50i_h6_ths_calc_temp raw) = 187744 - (uint raw * 1000000) div 14882" .
qed

lemma recalc_reg_uint:
  assumes "uint temp \<le> 187744"
  shows "uint (sun50i_h6_ths_recalc_reg temp) = 2794 - (uint temp * 14882) div 1000000"
proof -
  have t0: "0 \<le> uint temp" by (rule uint_ge_0)
  have "uint temp * 14882 \<le> 187744 * 14882" using assms by simp
  then have lt: "uint temp * 14882 < 2 ^ 32" by simp
  have "0 \<le> uint temp * 14882" using t0 by simp
  then have prod: "uint (temp * 14882) = uint temp * 14882"
    using lt by (simp add: uint_word_ariths mod_pos_pos_trivial)
  have quot: "uint ((temp * 14882) div 1000000) = (uint temp * 14882) div 1000000"
    by (simp only: uint_div prod) simp
  have "(uint temp * 14882) div 1000000 \<le> (187744 * 14882) div 1000000"
    using assms by (intro zdiv_mono1) simp_all
  then have qle: "(uint temp * 14882) div 1000000 \<le> 2794" by simp
  have q0: "0 \<le> (uint temp * 14882) div 1000000"
    using t0 by (simp add: pos_imp_zdiv_nonneg_iff)
  have "uint ((temp * 14882) div 1000000) \<le> uint (2794 :: u32)"
    using qle by (simp only: quot) simp
  then have "uint (2794 - (temp * 14882) div 1000000) = uint (2794 :: u32) - uint ((temp * 14882) div 1000000)"
    by (simp only: uint_sub_lem)
  then have d: "uint (2794 - (temp * 14882) div 1000000) = 2794 - (uint temp * 14882) div 1000000"
    by (simp only: quot) simp
  have "uint (ucast (2794 - (temp * 14882) div 1000000) :: u16)
        = take_bit 16 (uint (2794 - (temp * 14882) div 1000000))"
    by (simp add: unsigned_ucast_eq)
  also have "\<dots> = take_bit 16 (2794 - (uint temp * 14882) div 1000000)"
    by (simp only: d)
  also have "\<dots> = 2794 - (uint temp * 14882) div 1000000"
    using qle q0 by (intro take_bit_int_eq_self) simp_all
  finally show ?thesis by (simp only: sun50i_h6_ths_recalc_reg_def)
qed

lemma roundtrip_exact:
  assumes "raw \<le> 2794"
  shows "uint (sun50i_h6_ths_recalc_reg (sun50i_h6_ths_calc_temp raw)) = uint raw"
proof -
  note u = uint_calc_temp_nonneg [OF assms]
  have r: "uint raw \<le> 2794" using assms by (simp add: word_le_def)
  have "0 \<le> (uint raw * 1000000) div 14882"
    by (simp add: pos_imp_zdiv_nonneg_iff)
  then have le: "uint (sun50i_h6_ths_calc_temp raw) \<le> 187744"
    unfolding u(1) by linarith
  have "uint (sun50i_h6_ths_calc_temp raw) * 14882
        = 2794006208 - 14882 * ((uint raw * 1000000) div 14882)"
    unfolding u(1) by (simp only: left_diff_distrib mult.commute) simp
  then have "(uint (sun50i_h6_ths_calc_temp raw) * 14882) div 1000000 = 2794 - uint raw"
    using roundtrip_int [of "uint raw"] r by simp
  then show ?thesis
    unfolding recalc_reg_uint [OF le] by linarith
qed



text \<open>
  C10. The product \<open>val * 1000000\<close> is a 32-bit unsigned product. For every raw value up
  to 4294 the function returns exactly \<open>187744 - floor (val * 1000000 / 14882)\<close>; for every
  raw value from 4295 on the product wraps modulo \<open>2^32\<close>, the function returns
  \<open>187744 - floor ((val * 1000000 mod 2^32) / 14882)\<close>, and that is not the value of the
  linear formula.
\<close>

theorem calc_temp_u32_product:
  "(x \<le> 4294 \<longrightarrow>
      sint (sun50i_h6_ths_calc_temp x) = 187744 - (uint x * 1000000) div 14882) \<and>
   (4295 \<le> x \<longrightarrow>
      sint (sun50i_h6_ths_calc_temp x) = 187744 - ((uint x * 1000000) mod 2 ^ 32) div 14882 \<and>
      sint (sun50i_h6_ths_calc_temp x) \<noteq> 187744 - (uint x * 1000000) div 14882)"
proof (intro conjI impI)
  assume "x \<le> 4294"
  then show "sint (sun50i_h6_ths_calc_temp x) = 187744 - (uint x * 1000000) div 14882"
    by (rule calc_temp_sint_small)
next
  assume "4295 \<le> x"
  show "sint (sun50i_h6_ths_calc_temp x) = 187744 - ((uint x * 1000000) mod 2 ^ 32) div 14882"
    by (rule calc_temp_sint)
next
  assume "4295 \<le> x"
  then have "4295 \<le> uint x" by (simp add: word_le_def)
  then have "(2::int) ^ 32 \<le> uint x * 1000000" by simp
  then have "((uint x * 1000000) mod 2 ^ 32) div 14882 < (uint x * 1000000) div 14882"
    by (rule wrapped_quotient_less)
  then show "sint (sun50i_h6_ths_calc_temp x) \<noteq> 187744 - (uint x * 1000000) div 14882"
    unfolding calc_temp_sint by linarith
qed

theorem calc_temp_u32_product_witness:
  "(4294 :: u32) \<le> 4294 \<and> sint (sun50i_h6_ths_calc_temp 4294) = - 100792 \<and>
   (4295 :: u32) \<le> 4295 \<and> sint (sun50i_h6_ths_calc_temp 4295) = 187742 \<and>
   sint (sun50i_h6_ths_calc_temp 4295) \<noteq> - 100859"
  using calc_temp_u32_product [of 4294] calc_temp_u32_product [of 4295] by simp

text \<open>
  C1, as the code has it. For every raw value up to 4294 (every 12-bit sample is one), the
  temperature is exactly \<open>187744 - floor (raw * 1000000 / 14882)\<close> millidegrees and is
  strictly lower than the temperature of every smaller raw value. The instances below are
  raw 0, which gives 187744, and raw 2794, which gives 1 (zero within integer rounding).
\<close>

theorem calc_temp_linear_below_wrap:
  assumes "b \<le> 4294"
  shows "sint (sun50i_h6_ths_calc_temp b) = 187744 - (uint b * 1000000) div 14882 \<and>
         (\<forall>a. a < b \<longrightarrow> sint (sun50i_h6_ths_calc_temp b) < sint (sun50i_h6_ths_calc_temp a))"
proof (intro conjI allI impI)
  show "sint (sun50i_h6_ths_calc_temp b) = 187744 - (uint b * 1000000) div 14882"
    using assms by (rule calc_temp_sint_small)
next
  fix a assume "a < b"
  then have ab: "uint a < uint b" by (simp add: word_less_def)
  have "a \<le> 4294" using \<open>a < b\<close> assms by simp
  then have "sint (sun50i_h6_ths_calc_temp a) = 187744 - (uint a * 1000000) div 14882"
    by (rule calc_temp_sint_small)
  moreover have "sint (sun50i_h6_ths_calc_temp b) = 187744 - (uint b * 1000000) div 14882"
    using assms by (rule calc_temp_sint_small)
  moreover have "(uint a * 1000000) div 14882 < (uint b * 1000000) div 14882"
    using ab by (rule quot_strict_mono)
  ultimately show "sint (sun50i_h6_ths_calc_temp b) < sint (sun50i_h6_ths_calc_temp a)"
    by linarith
qed

theorem calc_temp_linear_below_wrap_witness:
  "(2794 :: u32) \<le> 4294 \<and> sint (sun50i_h6_ths_calc_temp 2794) = 1 \<and>
   sint (sun50i_h6_ths_calc_temp 2794) < sint (sun50i_h6_ths_calc_temp 0) \<and>
   sint (sun50i_h6_ths_calc_temp 0) = 187744"
proof -
  have h: "(2794 :: u32) \<le> 4294" by simp
  have z: "sint (sun50i_h6_ths_calc_temp 0) = 187744"
    by (simp add: sun50i_h6_ths_calc_temp_def)
  show ?thesis using h z calc_temp_linear_below_wrap [OF h] by simp
qed

text \<open>
  C1 as stated fails from raw 4295 on: at raw 5000 the function returns 140370, not the
  formula's -148232; at raw 12634 it returns -83998, not zero; and from raw 4294 to raw 4295
  the temperature rises.
\<close>

theorem calc_temp_formula_counterexample:
  "sint (sun50i_h6_ths_calc_temp 5000) = 140370 \<and>
   sint (sun50i_h6_ths_calc_temp 5000) \<noteq> 187744 - (5000 * 1000000) div 14882 \<and>
   sint (sun50i_h6_ths_calc_temp 12634) = - 83998 \<and>
   (4294 :: u32) < 4295 \<and>
   sint (sun50i_h6_ths_calc_temp 4294) < sint (sun50i_h6_ths_calc_temp 4295)"
  by (simp add: sun50i_h6_ths_calc_temp_def)

text \<open>
  C2, as the code has it. \<open>sun50i_h6_ths_recalc_reg\<close> takes its temperature as a \<open>u32\<close>.
  For every raw value up to 2794, the raw values whose temperature is not negative, the
  inverse formula applied to the converted temperature gives back the raw value exactly.
\<close>

theorem recalc_reg_calc_temp_roundtrip:
  assumes "raw \<le> 2794"
  shows "uint (sun50i_h6_ths_recalc_reg (sun50i_h6_ths_calc_temp raw)) = uint raw"
  using assms by (rule roundtrip_exact)

theorem recalc_reg_calc_temp_roundtrip_witness:
  "(2000 :: u32) \<le> 2794 \<and>
   uint (sun50i_h6_ths_recalc_reg (sun50i_h6_ths_calc_temp 2000)) = 2000"
proof -
  have h: "(2000 :: u32) \<le> 2794" by simp
  show ?thesis using h recalc_reg_calc_temp_roundtrip [OF h] by simp
qed

text \<open>
  C2 as stated fails for the raw values above 2794, whose temperature is negative: raw 3000
  converts to -13841 millidegrees, which the inverse formula reads as an unsigned number and
  maps to 64242.
\<close>

theorem recalc_reg_calc_temp_counterexample:
  "uint (sun50i_h6_ths_recalc_reg (sun50i_h6_ths_calc_temp 3000)) = 64242 \<and>
   \<not> \<bar>uint (sun50i_h6_ths_recalc_reg (sun50i_h6_ths_calc_temp 3000)) - uint (3000 :: u32)\<bar> \<le> 1"
  by (simp add: sun50i_h6_ths_calc_temp_def sun50i_h6_ths_recalc_reg_def)

section \<open>Temperature query\<close>

text \<open>
  C3. The query fails with \<open>EBUSY\<close> exactly when the sensor's stored raw sample is 0;
  otherwise it returns the configuration's conversion function applied to the stored raw
  value; in both cases the device context is left as it was.
\<close>

theorem get_temp_busy_iff_no_sample:
  "(fst (sun50i_h6_ths_get_temp i s) = Inl EBUSY \<longleftrightarrow> val (sensors s ! i) = 0) \<and>
   (val (sensors s ! i) \<noteq> 0 \<longrightarrow>
      fst (sun50i_h6_ths_get_temp i s) = Inr (calc_temp (cfg s) (val (sensors s ! i)))) \<and>
   snd (sun50i_h6_ths_get_temp i s) = s"
  by (simp add: sun50i_h6_ths_get_temp_def)

theorem get_temp_busy_iff_no_sample_witness:
  "fst (sun50i_h6_ths_get_temp 0
         ((probe_data (\<lambda>_. 0) (Inr []))
            \<lparr>sensors := [\<lparr>sensor_id = 0, val = 2000\<rparr>, \<lparr>sensor_id = 1, val = 0\<rparr>]\<rparr>))
     = Inr 53354 \<and>
   fst (sun50i_h6_ths_get_temp 1
         ((probe_data (\<lambda>_. 0) (Inr []))
            \<lparr>sensors := [\<lparr>sensor_id = 0, val = 2000\<rparr>, \<lparr>sensor_id = 1, val = 0\<rparr>]\<rparr>))
     = Inl EBUSY"
  using get_temp_busy_iff_no_sample [of 0
          "(probe_data (\<lambda>_. 0) (Inr []))
            \<lparr>sensors := [\<lparr>sensor_id = 0, val = 2000\<rparr>, \<lparr>sensor_id = 1, val = 0\<rparr>]\<rparr>"]
        get_temp_busy_iff_no_sample [of 1
          "(probe_data (\<lambda>_. 0) (Inr []))
            \<lparr>sensors := [\<lparr>sensor_id = 0, val = 2000\<rparr>, \<lparr>sensor_id = 1, val = 0\<rparr>]\<rparr>"]
  by (simp add: probe_data_def sun50i_h6_ths_cfg_def sun50i_h6_ths_calc_temp_def)

section \<open>Threaded interrupt handler\<close>

text \<open>
  The status register tests one bit, and clearing the bits of the sensors handled so far
  leaves the bit of the next sensor as it was.
\<close>

lemma bit_test_iff: "(w AND THS_H6_STAT_DATA_IRQ_STS i = 0) \<longleftrightarrow> \<not> bit w i"
  unfolding THS_H6_STAT_DATA_IRQ_STS_def
  by (simp add: bit_iff_and_push_bit_not_eq_0)

lemma clear_next:
  "(w AND NOT (mask k)) AND NOT (THS_H6_STAT_DATA_IRQ_STS k) = w AND NOT (mask (Suc k))"
  unfolding THS_H6_STAT_DATA_IRQ_STS_def
  by (rule bit_word_eqI) (auto simp add: bit_simps less_Suc_eq)

lemma clear_absent:
  fixes w :: u32
  shows "\<not> bit w k \<Longrightarrow> w AND NOT (mask k) = w AND NOT (mask (Suc k))"
  by (rule bit_word_eqI) (auto simp add: bit_simps less_Suc_eq)

lemma bit_above_mask: "bit (w AND NOT (mask k)) k \<longleftrightarrow> bit (w :: u32) k"
  by (auto simp add: bit_simps dest: bit_imp_le_length)

lemma irq_thread_body_eq:
  assumes "i < length (sensors s)"
  shows "irq_thread_body i s =
     (if \<not> bit (regs s THS_H6_DATA_INT_STAT) i
      then s\<lparr>trace := trace s @ [Readl THS_H6_DATA_INT_STAT (regs s THS_H6_DATA_INT_STAT)]\<rparr>
      else s\<lparr>regs := (regs s)(THS_H6_DATA_INT_STAT :=
                   regs s THS_H6_DATA_INT_STAT AND NOT (THS_H6_STAT_DATA_IRQ_STS i)),
             sensors := (sensors s)[i := (sensors s ! i)\<lparr>val := regs s (THS_H6_DATA i)\<rparr>],
             trace := trace s @
               [Readl THS_H6_DATA_INT_STAT (regs s THS_H6_DATA_INT_STAT),
                Writel (THS_H6_STAT_DATA_IRQ_STS i) THS_H6_DATA_INT_STAT,
                Readl (THS_H6_DATA i) (regs s (THS_H6_DATA i))] @
               (if regs s (THS_H6_DATA i) \<noteq> 0 then [Thermal_zone_device_update i] else [])\<rparr>)"
proof -
  have ne: "THS_H6_DATA i \<noteq> THS_H6_DATA_INT_STAT"
    by (simp add: THS_H6_DATA_def THS_H6_DATA_INT_STAT_def)
  show ?thesis
    using assms ne
    by (simp add: irq_thread_body_def readl_def writel_def thermal_zone_device_update_def
        bit_test_iff Let_def)
qed

lemma irq_fold_invariant:
  assumes "k \<le> length (sensors s)"
  shows "cfg (fold irq_thread_body [0..<k] s) = cfg s \<and>
         calcell (fold irq_thread_body [0..<k] s) = calcell s \<and>
         live_bufs (fold irq_thread_body [0..<k] s) = live_bufs s \<and>
         regs (fold irq_thread_body [0..<k] s) =
           (regs s)(THS_H6_DATA_INT_STAT := regs s THS_H6_DATA_INT_STAT AND NOT (mask k)) \<and>
         length (sensors (fold irq_thread_body [0..<k] s)) = length (sensors s) \<and>
         (\<forall>j. sensors (fold irq_thread_body [0..<k] s) ! j =
              (if j < k \<and> bit (regs s THS_H6_DATA_INT_STAT) j
               then (sensors s ! j)\<lparr>val := regs s (THS_H6_DATA j)\<rparr> else sensors s ! j)) \<and>
         trace (fold irq_thread_body [0..<k] s) =
           trace s @ concat (map (irq_events (regs s THS_H6_DATA_INT_STAT)
                                             (\<lambda>i. regs s (THS_H6_DATA i))) [0..<k])"
  using assms
proof (induction k)
  case 0
  show ?case by simp
next
  case (Suc k)
  define t where "t = fold irq_thread_body [0..<k] s"
  define st where "st = regs s THS_H6_DATA_INT_STAT"
  have k: "k \<le> length (sensors s)" using Suc.prems by simp
  note ih = Suc.IH [OF k]
  have ih_cfg: "cfg t = cfg s" "calcell t = calcell s" "live_bufs t = live_bufs s"
    unfolding t_def using ih by blast+
  have ih_regs: "regs t = (regs s)(THS_H6_DATA_INT_STAT := st AND NOT (mask k))"
    unfolding t_def st_def using ih by blast
  have ih_len: "length (sensors t) = length (sensors s)"
    unfolding t_def using ih by blast
  have ih_sens: "sensors t ! j =
      (if j < k \<and> bit st j then (sensors s ! j)\<lparr>val := regs s (THS_H6_DATA j)\<rparr>
       else sensors s ! j)" for j
    unfolding t_def st_def using ih by blast
  have ih_trace: "trace t = trace s @ concat (map (irq_events st (\<lambda>i. regs s (THS_H6_DATA i))) [0..<k])"
    unfolding t_def st_def using ih by blast
  have len: "k < length (sensors t)" using ih_len Suc.prems by simp
  have ne: "THS_H6_DATA k \<noteq> THS_H6_DATA_INT_STAT"
    by (simp add: THS_H6_DATA_def THS_H6_DATA_INT_STAT_def)
  have rt: "regs t THS_H6_DATA_INT_STAT = st AND NOT (mask k)"
    by (simp add: ih_regs)
  have rd: "regs t (THS_H6_DATA k) = regs s (THS_H6_DATA k)"
    using ne by (simp add: ih_regs)
  have step: "fold irq_thread_body [0..<Suc k] s = irq_thread_body k t"
    by (simp add: t_def)
  have sens_k: "sensors t ! k = sensors s ! k" by (simp add: ih_sens)
  define u where "u = irq_thread_body k t"
  have goal_cfg: "cfg u = cfg s \<and> calcell u = calcell s \<and> live_bufs u = live_bufs s"
    unfolding u_def irq_thread_body_eq [OF len] by (simp add: ih_cfg)
  have goal_len: "length (sensors u) = length (sensors s)"
    unfolding u_def irq_thread_body_eq [OF len] by (simp add: ih_len)
  have goal_regs: "regs u = (regs s)(THS_H6_DATA_INT_STAT := st AND NOT (mask (Suc k)))"
  proof (cases "bit st k")
    case True
    then have "regs u = (regs t)(THS_H6_DATA_INT_STAT := st AND NOT (mask (Suc k)))"
      unfolding u_def irq_thread_body_eq [OF len] by (simp add: rt bit_above_mask clear_next)
    then show ?thesis by (simp add: ih_regs)
  next
    case False
    then have "regs u = regs t"
      unfolding u_def irq_thread_body_eq [OF len] by (simp add: rt bit_above_mask)
    then show ?thesis by (simp add: ih_regs clear_absent [OF False])
  qed
  have goal_sens: "sensors u ! j =
      (if j < Suc k \<and> bit st j then (sensors s ! j)\<lparr>val := regs s (THS_H6_DATA j)\<rparr>
       else sensors s ! j)" for j
  proof (cases "bit st k")
    case True
    then have "sensors u = (sensors t)[k := (sensors s ! k)\<lparr>val := regs s (THS_H6_DATA k)\<rparr>]"
      unfolding u_def irq_thread_body_eq [OF len] by (simp add: rt rd bit_above_mask sens_k)
    then show ?thesis
      using True len by (cases "j = k") (simp_all add: ih_sens less_Suc_eq)
  next
    case False
    then have "sensors u = sensors t"
      unfolding u_def irq_thread_body_eq [OF len] by (simp add: rt bit_above_mask)
    then show ?thesis
      using False by (cases "j = k") (simp_all add: ih_sens less_Suc_eq)
  qed
  have goal_trace: "trace u =
      trace s @ concat (map (irq_events st (\<lambda>i. regs s (THS_H6_DATA i))) [0..<Suc k])"
  proof -
    have "trace u = trace t @ irq_events st (\<lambda>i. regs s (THS_H6_DATA i)) k"
      unfolding u_def irq_thread_body_eq [OF len]
      by (simp add: rt rd bit_above_mask irq_events_def)
    then show ?thesis by (simp add: ih_trace)
  qed
  show ?case
    unfolding step u_def [symmetric] st_def [symmetric]
    using goal_cfg goal_len goal_regs goal_sens goal_trace by blast
qed

text \<open>
  C4. With the sensor array holding every configured sensor, one run of the handler does,
  for each sensor in turn, what \<open>irq_events\<close> lists: it reads the status; for a sensor
  whose bit is set it writes that bit to the status register, then reads the data register,
  and notifies the thermal zone exactly when the value read is not zero; for a sensor whose
  bit is not set it does nothing more. Afterwards the status bits of the configured sensors
  are clear and all other status bits and registers are as before; the sensors whose bit was
  set hold the value read, and all other sensor entries are as before.
\<close>

theorem irq_thread_drains_pending:
  assumes "sensor_num (cfg s) \<le> length (sensors s)"
  shows "trace (sun50i_h6_ths_irq_thread s) =
           trace s @ concat (map (irq_events (regs s THS_H6_DATA_INT_STAT)
                                             (\<lambda>i. regs s (THS_H6_DATA i)))
                                 [0..<sensor_num (cfg s)]) \<and>
         (\<forall>i. bit (regs (sun50i_h6_ths_irq_thread s) THS_H6_DATA_INT_STAT) i \<longleftrightarrow>
              bit (regs s THS_H6_DATA_INT_STAT) i \<and> sensor_num (cfg s) \<le> i) \<and>
         (\<forall>off. off \<noteq> THS_H6_DATA_INT_STAT \<longrightarrow>
              regs (sun50i_h6_ths_irq_thread s) off = regs s off) \<and>
         (\<forall>i. sensors (sun50i_h6_ths_irq_thread s) ! i =
              (if i < sensor_num (cfg s) \<and> bit (regs s THS_H6_DATA_INT_STAT) i
               then (sensors s ! i)\<lparr>val := regs s (THS_H6_DATA i)\<rparr>
               else sensors s ! i))"
proof -
  note inv = irq_fold_invariant [OF assms, folded sun50i_h6_ths_irq_thread_def]
  have r: "regs (sun50i_h6_ths_irq_thread s) =
           (regs s)(THS_H6_DATA_INT_STAT :=
              regs s THS_H6_DATA_INT_STAT AND NOT (mask (sensor_num (cfg s))))"
    using inv by blast
  have b: "bit (regs (sun50i_h6_ths_irq_thread s) THS_H6_DATA_INT_STAT) i \<longleftrightarrow>
           bit (regs s THS_H6_DATA_INT_STAT) i \<and> sensor_num (cfg s) \<le> i" for i
    unfolding r by (auto simp add: bit_simps dest: bit_imp_le_length)
  have o: "off \<noteq> THS_H6_DATA_INT_STAT \<longrightarrow> regs (sun50i_h6_ths_irq_thread s) off = regs s off" for off
    unfolding r by simp
  show ?thesis using inv b o by blast
qed

theorem irq_thread_drains_pending_witness:
  "sensor_num (cfg (probe_data ((\<lambda>_. 0)(0x20 := 2, 0xc0 := 7, 0xc4 := 2000)) (Inr []))) \<le>
     length (sensors (probe_data ((\<lambda>_. 0)(0x20 := 2, 0xc0 := 7, 0xc4 := 2000)) (Inr []))) \<and>
   trace (sun50i_h6_ths_irq_thread
            (probe_data ((\<lambda>_. 0)(0x20 := 2, 0xc0 := 7, 0xc4 := 2000)) (Inr []))) =
     [Readl 0x20 2, Readl 0x20 2, Writel 2 0x20, Readl 0xc4 2000, Thermal_zone_device_update 1] \<and>
   \<not> bit (regs (sun50i_h6_ths_irq_thread
            (probe_data ((\<lambda>_. 0)(0x20 := 2, 0xc0 := 7, 0xc4 := 2000)) (Inr []))) THS_H6_DATA_INT_STAT) 1 \<and>
   val (sensors (sun50i_h6_ths_irq_thread
            (probe_data ((\<lambda>_. 0)(0x20 := 2, 0xc0 := 7, 0xc4 := 2000)) (Inr []))) ! 1) = 2000 \<and>
   val (sensors (sun50i_h6_ths_irq_thread
            (probe_data ((\<lambda>_. 0)(0x20 := 2, 0xc0 := 7, 0xc4 := 2000)) (Inr []))) ! 0) = 0"
proof -
  define S where "S = probe_data ((\<lambda>_. 0)(0x20 := 2, 0xc0 := 7, 0xc4 := 2000)) (Inr [])"
  have h: "sensor_num (cfg S) \<le> length (sensors S)"
    by (simp add: S_def probe_data_def sun50i_h6_ths_cfg_def THS_H6_MAX_SENSOR_NUM_def)
  have c: "cfg S = sun50i_h6_ths_cfg" "trace S = []"
    "regs S = (\<lambda>_. 0)(0x20 := 2, 0xc0 := 7, 0xc4 := 2000)"
    "sensors S = replicate 4 \<lparr>sensor_id = 0, val = 0\<rparr>"
    by (simp_all add: S_def probe_data_def THS_H6_MAX_SENSOR_NUM_def)
  have two: "[0..<2] = [0, Suc 0]" by (simp add: upt_rec)
  show ?thesis
    using h irq_thread_drains_pending [OF h]
    unfolding S_def [symmetric]
    by (simp add: c sun50i_h6_ths_cfg_def two irq_events_def THS_H6_DATA_INT_STAT_def
        THS_H6_DATA_def THS_H6_STAT_DATA_IRQ_STS_def)
qed

section \<open>Calibration\<close>

text \<open>
  C5. When the calibration cell can be read, calibration fails with \<open>EINVAL\<close> if the buffer
  is shorter than \<open>2 + 2 * sensor_num\<close> bytes or if its first 16-bit word is zero, and in
  those cases it accesses no register.
\<close>

theorem calibrate_invalid_data:
  assumes "calcell s = Inr buf"
    and "length buf < 2 + 2 * sensor_num (cfg s) \<or> caldata_at buf 0 = 0"
  shows "fst (sun50i_h6_ths_calibrate s) = Inl EINVAL \<and>
         regs (snd (sun50i_h6_ths_calibrate s)) = regs s \<and>
         trace (snd (sun50i_h6_ths_calibrate s)) = trace s"
  using assms by (auto simp add: sun50i_h6_ths_calibrate_def Let_def)

theorem calibrate_invalid_data_witness:
  "calcell (probe_data (\<lambda>_. 0x08000800) (Inr [0x00, 0x00, 0x38, 0x09, 0x38, 0x09]))
     = Inr [0x00, 0x00, 0x38, 0x09, 0x38, 0x09] \<and>
   caldata_at [0x00, 0x00, 0x38, 0x09, 0x38, 0x09] 0 = 0 \<and>
   fst (sun50i_h6_ths_calibrate
          (probe_data (\<lambda>_. 0x08000800) (Inr [0x00, 0x00, 0x38, 0x09, 0x38, 0x09]))) = Inl EINVAL \<and>
   regs (snd (sun50i_h6_ths_calibrate
          (probe_data (\<lambda>_. 0x08000800) (Inr [0x00, 0x00, 0x38, 0x09, 0x38, 0x09])))) 0xa0
     = 0x08000800 \<and>
   trace (snd (sun50i_h6_ths_calibrate
          (probe_data (\<lambda>_. 0x08000800) (Inr [0x00, 0x00, 0x38, 0x09, 0x38, 0x09])))) = []"
proof -
  have h1: "calcell (probe_data (\<lambda>_. 0x08000800) (Inr [0x00, 0x00, 0x38, 0x09, 0x38, 0x09]))
     = Inr [0x00, 0x00, 0x38, 0x09, 0x38, 0x09]"
    by (simp add: probe_data_def)
  have z: "caldata_at [0x00, 0x00, 0x38, 0x09, 0x38, 0x09] 0 = 0"
    by (simp add: caldata_at_def)
  then have h2: "length [0x00, 0x00, 0x38, 0x09, 0x38, 0x09 :: u8]
          < 2 + 2 * sensor_num (cfg (probe_data (\<lambda>_. 0x08000800) (Inr [0x00, 0x00, 0x38, 0x09, 0x38, 0x09])))
        \<or> caldata_at [0x00, 0x00, 0x38, 0x09, 0x38, 0x09] 0 = 0"
    by simp
  show ?thesis
    using h1 z calibrate_invalid_data [OF h1 h2]
    by (simp add: probe_data_def)
qed

text \<open>Evaluation of calibration on a device with the driver's two sensors.\<close>

lemma upt_2: "[0..<2] = [0, Suc 0]"
  by (simp add: upt_rec)

lemmas calibrate_eval =
  sun50i_h6_ths_calibrate_def calibrate_body_def cal_value_def cal_diff_def caldata_at_def
  sun50i_h6_ths_recalc_reg_def probe_data_def sun50i_h6_ths_cfg_def readl_def writel_def
  pr_warn_def kfree_def THS_H6_CDATA_def THS_H6_DATA_INT_STAT_def THS_H6_CAL_DEFAULT_def
  THS_H6_CAL_VAL_MASK_def THS_H6_CAL_FT_TEMP_MASK_def THS_H6_MAX_SENSOR_NUM_def upt_2 Let_def

text \<open>
  C6 at a concrete input. The factory temperature is 25.0 degrees (expected raw value 2422),
  sensor 0 stored 2400 and sensor 1 stored 0, and the calibration word holds the hardware
  default \<open>0x800\<close> in both halves. Sensor 1's value, -374, is out of range: a warning is
  logged and calibration succeeds. Sensor 0's value \<open>0x7EA\<close> was written as a whole word, so
  the half of sensor 1 holds 0 afterwards, not the hardware default.
\<close>

theorem calibrate_out_of_range_odd_sensor:
  "fst (sun50i_h6_ths_calibrate
          (probe_data (\<lambda>_. 0x08000800) (Inr [0xFA, 0x00, 0x60, 0x09, 0x00, 0x00]))) = Inr () \<and>
   trace (snd (sun50i_h6_ths_calibrate
          (probe_data (\<lambda>_. 0x08000800) (Inr [0xFA, 0x00, 0x60, 0x09, 0x00, 0x00]))))
     = [Writel 0x7EA 0xa0, Pr_warn 1] \<and>
   regs (snd (sun50i_h6_ths_calibrate
          (probe_data (\<lambda>_. 0x08000800) (Inr [0xFA, 0x00, 0x60, 0x09, 0x00, 0x00])))) 0xa0
     = 0x000007EA"
  by (simp add: calibrate_eval)

text \<open>
  C7 at a concrete input. The factory temperature is 30.0 degrees (expected raw value 2348).
  When sensor 0 is valid (stored 2360, value \<open>0x80C\<close>) and sensor 1 is out of range, the only
  register access is one write of \<open>0x0000080C\<close>: the word is not read, and its upper half
  is not preserved. When sensor 0 is out of range and sensor 1 is valid, the word is read,
  its lower half kept and the upper half set.
\<close>

theorem calibrate_even_sensor_overwrites_pair:
  "regs (snd (sun50i_h6_ths_calibrate
          (probe_data (\<lambda>_. 0x08000800) (Inr [0x2C, 0x01, 0x38, 0x09, 0x00, 0x70])))) 0xa0
     = 0x0000080C \<and>
   trace (snd (sun50i_h6_ths_calibrate
          (probe_data (\<lambda>_. 0x08000800) (Inr [0x2C, 0x01, 0x38, 0x09, 0x00, 0x70]))))
     = [Writel 0x80C 0xa0, Pr_warn 1] \<and>
   regs (snd (sun50i_h6_ths_calibrate
          (probe_data (\<lambda>_. 0x08000800) (Inr [0x2C, 0x01, 0x00, 0x70, 0x38, 0x09])))) 0xa0
     = 0x080C0800 \<and>
   trace (snd (sun50i_h6_ths_calibrate
          (probe_data (\<lambda>_. 0x08000800) (Inr [0x2C, 0x01, 0x00, 0x70, 0x38, 0x09]))))
     = [Pr_warn 0, Readl 0xa0 0x08000800, Writel 0x080C0800 0xa0]"
  by (simp add: calibrate_eval)

section \<open>The calibration step of probe\<close>













section \<open>Release of the calibration buffer\<close>

text \<open>
  C9 at concrete inputs. With a buffer of four bytes, and with a buffer whose first word is
  zero, calibration returns \<open>EINVAL\<close> and the buffer read from the cell is still allocated;
  on the successful path it has been freed.
\<close>

theorem calibrate_invalid_keeps_buffer:
  "fst (sun50i_h6_ths_calibrate
          (probe_data (\<lambda>_. 0x08000800) (Inr [0xFA, 0x00, 0x60, 0x09]))) = Inl EINVAL \<and>
   live_bufs (probe_data (\<lambda>_. 0x08000800) (Inr [0xFA, 0x00, 0x60, 0x09])) = 0 \<and>
   live_bufs (snd (sun50i_h6_ths_calibrate
          (probe_data (\<lambda>_. 0x08000800) (Inr [0xFA, 0x00, 0x60, 0x09])))) = 1 \<and>
   fst (sun50i_h6_ths_calibrate
          (probe_data (\<lambda>_. 0x08000800) (Inr [0x00, 0x00, 0x60, 0x09, 0x60, 0x09]))) = Inl EINVAL \<and>
   live_bufs (snd (sun50i_h6_ths_calibrate
          (probe_data (\<lambda>_. 0x08000800) (Inr [0x00, 0x00, 0x60, 0x09, 0x60, 0x09])))) = 1 \<and>
   fst (sun50i_h6_ths_calibrate
          (probe_data (\<lambda>_. 0x08000800) (Inr [0xFA, 0x00, 0x60, 0x09, 0x60, 0x09]))) = Inr ()  \<and>
   live_bufs (snd (sun50i_h6_ths_calibrate
          (probe_data (\<lambda>_. 0x08000800) (Inr [0xFA, 0x00, 0x60, 0x09, 0x60, 0x09])))) = 0"
  by (simp add: calibrate_eval)

end
